theory Spec2Isabelle
  imports Complex_Main
begin

section \<open>Python values, errors and the node\<close>

text \<open>
  The backend \<^verbatim>\<open>src/onnx_tf/backends/backend_v1.py\<close> is a class of lowering rules
  \<^verbatim>\<open>handle_*(cls, node, input_dict)\<close>. Each rule reads the attributes and the inputs of
  an interchange-format node, looks the inputs up in the symbol table \<^verbatim>\<open>input_dict\<close>, and
  returns a list of target-engine tensors.

  Exceptions are values: a rule returns \<open>Inl e\<close> where the Python raises \<open>e\<close>.
\<close>

datatype error =
    KeyError string
  | IndexError
  | TypeError
  | ValueError
  | ZeroDivisionError
  | OverflowError
  | UnboundLocalError string
  | NotImplementedError string
  | AssertionError

text \<open>
  An attribute value, as the node holds it after conversion from the interchange format:
  an integer, a float (modelled as a real), a string, or a list of these.
\<close>

datatype attr =
    AInt int
  | AFloat real
  | AStr string
  | AInts "int list"
  | AFloats "real list"
  | AStrs "string list"

record node =
  op_type :: string
  attrs :: "string \<rightharpoonup> attr"
  inputs :: "string list"
  outputs :: "string list"
  name :: string

text \<open>
  Python list subscripts: position \<open>i\<close> of a list of length \<open>n\<close> is \<open>i\<close> itself when
  \<open>0 \<le> i < n\<close> and \<open>n + i\<close> when \<open>-n \<le> i < 0\<close>; any other subscript raises.
\<close>

definition norm_index :: "nat \<Rightarrow> int \<Rightarrow> nat option" where
  "norm_index n i =
     (if 0 \<le> i \<and> i < int n then Some (nat i)
      else if - int n \<le> i \<and> i < 0 then Some (nat (int n + i))
      else None)"

definition getitem :: "'a list \<Rightarrow> int \<Rightarrow> error + 'a" where
  "getitem xs i =
     (case norm_index (length xs) i of None \<Rightarrow> Inl IndexError | Some j \<Rightarrow> Inr (xs ! j))"

definition setitem :: "'a list \<Rightarrow> int \<Rightarrow> 'a \<Rightarrow> error + 'a list" where
  "setitem xs i v =
     (case norm_index (length xs) i of None \<Rightarrow> Inl IndexError | Some j \<Rightarrow> Inr (xs[j := v]))"

text \<open>\<^verbatim>\<open>range(n)\<close> for a Python integer: empty when \<open>n \<le> 0\<close>.\<close>

definition range_py :: "int \<Rightarrow> int list" where
  "range_py n = map int [0..<nat n]"

section \<open>Target-engine tensors\<close>

datatype dtype = Float32 | Float64 | Int32 | Int64 | Bool

text \<open>
  A lowered tensor handle of the symbol table: an opaque reference with its static shape
  and element type. The model covers handles whose static shape is fully known.
\<close>

record handle =
  href :: nat
  static_shape :: "nat list"
  elem_type :: dtype

type_synonym symbol_table = "string \<rightharpoonup> handle"

text \<open>
  The rules do not compute: they add nodes to the target engine's graph. A tensor is the
  term of the primitive calls that build it, one constructor for each primitive the
  modelled rules call, with the arguments of the call. Attribute values that a rule passes
  on untouched stay \<^typ>\<open>attr\<close>.
\<close>

datatype tensor =
    Handle handle
  | ConstInt int
  | ArgMax tensor attr
  | ArgMin tensor attr
  | Slice tensor "int list" "int list"
  | Rank tensor
  | Range tensor
  | Size tensor
  | Sub tensor tensor
  | SplitV tensor "tensor list" int nat
  | Split tensor attr int nat
  | ReduceMean tensor tensor bool
  | ReduceMax tensor tensor bool
  | Transpose tensor "int list"
  | NNPool tensor string attr string attr string
  | PyFuncPool tensor attr attr "int list" "int list" "int list" string dtype
  | SetShape tensor "int list"
  | Convolution tensor tensor string "attr option" "attr option" string
  | Concat "tensor list" int
  | BiasAdd tensor tensor string
  | Moments_mean tensor "int list"
  | Moments_variance tensor "int list"
  | Mul_scalar tensor attr
  | Add tensor tensor
  | BatchNormalization tensor tensor tensor tensor tensor attr
  | ExplicitBroadcast tensor int nat
  | PaddingAsOp tensor attr
  | Shape tensor
  | StridedSlice tensor tensor tensor
  | ReduceProd tensor
  | ReduceMaxAll tensor
  | Pack "tensor list"
  | Reshape tensor tensor
  | Softmax tensor

section \<open>The rules as state transformers\<close>

text \<open>
  Python passes \<^verbatim>\<open>node\<close> and \<^verbatim>\<open>input_dict\<close> by reference, and \<^verbatim>\<open>warnings.warn\<close> writes to
  a process-wide channel. A rule is therefore a function from the state it can reach (the
  node, the symbol table, the warnings emitted so far) to its result and the state after
  the call.
\<close>

record lowering_state =
  the_node :: node
  input_dict :: symbol_table
  warnings :: "string list"

type_synonym 'a lowering = "lowering_state \<Rightarrow> (error + 'a) \<times> lowering_state"

definition return :: "'a \<Rightarrow> 'a lowering" where
  "return v = (\<lambda>s. (Inr v, s))"

definition raise :: "error \<Rightarrow> 'a lowering" where
  "raise e = (\<lambda>s. (Inl e, s))"

definition bind :: "'a lowering \<Rightarrow> ('a \<Rightarrow> 'b lowering) \<Rightarrow> 'b lowering" where
  "bind m f = (\<lambda>s. case m s of (Inl e, s') \<Rightarrow> (Inl e, s') | (Inr v, s') \<Rightarrow> f v s')"

definition lift :: "error + 'a \<Rightarrow> 'a lowering" where
  "lift r = (\<lambda>s. (r, s))"

text \<open>\<^verbatim>\<open>node.attrs[key]\<close>: a missing key raises \<^verbatim>\<open>KeyError(key)\<close>.\<close>

definition attrs_item :: "string \<Rightarrow> attr lowering" where
  "attrs_item key = (\<lambda>s. case attrs (the_node s) key of
       None \<Rightarrow> (Inl (KeyError key), s)
     | Some v \<Rightarrow> (Inr v, s))"

text \<open>\<^verbatim>\<open>node.attrs.get(key, default)\<close>.\<close>

definition attrs_get :: "string \<Rightarrow> attr \<Rightarrow> attr lowering" where
  "attrs_get key dflt = (\<lambda>s. case attrs (the_node s) key of
       None \<Rightarrow> (Inr dflt, s)
     | Some v \<Rightarrow> (Inr v, s))"

text \<open>\<^verbatim>\<open>key in node.attrs\<close>.\<close>

definition attrs_has :: "string \<Rightarrow> bool lowering" where
  "attrs_has key = (\<lambda>s. (Inr (attrs (the_node s) key \<noteq> None), s))"

text \<open>\<^verbatim>\<open>input_dict[node.inputs[i]]\<close>.\<close>

definition input_tensor :: "int \<Rightarrow> handle lowering" where
  "input_tensor i = (\<lambda>s. case getitem (inputs (the_node s)) i of
       Inl e \<Rightarrow> (Inl e, s)
     | Inr k \<Rightarrow> (case input_dict s k of
          None \<Rightarrow> (Inl (KeyError k), s)
        | Some h \<Rightarrow> (Inr h, s)))"

text \<open>\<^verbatim>\<open>warnings.warn(msg, UserWarning)\<close>: non-fatal, recorded, control flow goes on.\<close>

definition warn :: "string \<Rightarrow> unit lowering" where
  "warn msg = (\<lambda>s. (Inr (), s\<lparr>warnings := warnings s @ [msg]\<rparr>))"

text \<open>Python's \<^verbatim>\<open>v == 1\<close> for an attribute value \<open>v\<close>.\<close>

fun eq_one :: "attr \<Rightarrow> bool" where
  "eq_one (AInt n) = (n = 1)"
| "eq_one (AFloat r) = (r = 1)"
| "eq_one _ = False"

subsection \<open>ArgMax and ArgMin\<close>

definition handle_arg_max :: "(tensor list) lowering" where
  "handle_arg_max =
     bind (input_tensor 0) (\<lambda>data.
     bind (attrs_item ''axis'') (\<lambda>axis.
     bind (attrs_get ''keepdims'' (AInt 1)) (\<lambda>keepdims.
     bind (if eq_one keepdims
           then warn ''Definition of ArgMax with keepdims enabled is incompatible between onnx and tensorflow.''
           else return ()) (\<lambda>_.
     return [ArgMax (Handle data) axis]))))"

definition handle_arg_min :: "(tensor list) lowering" where
  "handle_arg_min =
     bind (input_tensor 0) (\<lambda>data.
     bind (attrs_item ''axis'') (\<lambda>axis.
     bind (attrs_get ''keepdims'' (AInt 1)) (\<lambda>keepdims.
     bind (if eq_one keepdims
           then warn ''Definition of ArgMin with keepdims enabled is incompatible between onnx and tensorflow.''
           else return ()) (\<lambda>_.
     return [ArgMin (Handle data) axis]))))"

text \<open>
  Static shape inference of the target engine (\<^verbatim>\<open>get_shape()\<close> of a tensor), for the
  primitives whose result shape the properties below speak about: \<^verbatim>\<open>tf.argmax\<close> and
  \<^verbatim>\<open>tf.argmin\<close> drop the reduced axis, \<^verbatim>\<open>tf.slice\<close> takes \<open>size[i]\<close> elements from
  \<open>begin[i]\<close> where \<open>size[i] = -1\<close> stands for all that remain, \<^verbatim>\<open>set_shape\<close> declares the
  shape, \<^verbatim>\<open>tf.reduce_mean\<close> and \<^verbatim>\<open>tf.reduce_max\<close> reduce the given axes. \<open>None\<close>: the
  engine rejects the call, or the primitive is outside this fragment.
\<close>

definition drop_axis :: "nat list \<Rightarrow> attr \<Rightarrow> nat list option" where
  "drop_axis shp axis =
     (case axis of
        AInt a \<Rightarrow>
          (let r = int (length shp); j = (if a < 0 then a + r else a)
           in if 0 \<le> j \<and> j < r then Some (take (nat j) shp @ drop (Suc (nat j)) shp) else None)
      | _ \<Rightarrow> None)"

fun slice_shape :: "nat list \<Rightarrow> int list \<Rightarrow> int list \<Rightarrow> nat list option" where
  "slice_shape [] [] [] = Some []"
| "slice_shape (d # ds) (b # bs) (z # zs) =
     (if 0 \<le> b \<and> b \<le> int d \<and> (z = -1 \<or> (0 \<le> z \<and> b + z \<le> int d))
      then map_option ((#) (if z = -1 then d - nat b else nat z)) (slice_shape ds bs zs)
      else None)"
| "slice_shape _ _ _ = None"

text \<open>
  A reduction over the axes \<open>ax\<close> keeps a dimension of size 1 for each reduced axis when
  \<open>keep_dims\<close> is set and drops it otherwise; \<open>i\<close> is the position of the head of the list.
\<close>

fun reduce_dims :: "int list \<Rightarrow> bool \<Rightarrow> nat \<Rightarrow> nat list \<Rightarrow> nat list" where
  "reduce_dims ax keep_dims i [] = []"
| "reduce_dims ax keep_dims i (d # ds) =
     (if int i \<in> set ax then (if keep_dims then [1] else []) else [d])
       @ reduce_dims ax keep_dims (Suc i) ds"

definition reduce_shape :: "nat list \<Rightarrow> int list \<Rightarrow> bool \<Rightarrow> nat list option" where
  "reduce_shape shp ax keep_dims =
     (let r = int (length shp)
      in if list_all (\<lambda>a. - r \<le> a \<and> a < r) ax
         then Some (reduce_dims (map (\<lambda>a. if a < 0 then a + r else a) ax) keep_dims 0 shp)
         else None)"

text \<open>
  The two sizes of \<^verbatim>\<open>tf.split(v, [m, n])\<close> on a vector must be non-negative and add up to
  its length; output 0 is the first \<open>m\<close> entries and output 1 the rest.
\<close>

definition split_vector :: "int list \<Rightarrow> int \<Rightarrow> int \<Rightarrow> int \<Rightarrow> nat \<Rightarrow> int list option" where
  "split_vector v m n axis i =
     (if axis = 0 \<and> 0 \<le> m \<and> 0 \<le> n \<and> m + n = int (length v) \<and> i < 2
      then Some (if i = 0 then take (nat m) v else drop (nat m) v)
      else None)"

text \<open>
  \<open>get_shape\<close> is the static shape of a tensor and \<open>const_value\<close> the value of an integer
  tensor that depends on static shapes only (a scalar is a list of one entry), as the
  engine's shape inference folds them.
\<close>

fun get_shape :: "tensor \<Rightarrow> nat list option"
  and const_value :: "tensor \<Rightarrow> int list option" where
  "get_shape (Handle h) = Some (static_shape h)"
| "get_shape (ArgMax t axis) = Option.bind (get_shape t) (\<lambda>shp. drop_axis shp axis)"
| "get_shape (ArgMin t axis) = Option.bind (get_shape t) (\<lambda>shp. drop_axis shp axis)"
| "get_shape (Slice t begin sizes) = Option.bind (get_shape t) (\<lambda>shp. slice_shape shp begin sizes)"
| "get_shape (SetShape t shp) = (if list_all (\<lambda>d. 0 \<le> d) shp then Some (map nat shp) else None)"
| "get_shape (ReduceMean t axes keep_dims) =
     Option.bind (get_shape t) (\<lambda>shp.
     Option.bind (const_value axes) (\<lambda>ax. reduce_shape shp ax keep_dims))"
| "get_shape (ReduceMax t axes keep_dims) =
     Option.bind (get_shape t) (\<lambda>shp.
     Option.bind (const_value axes) (\<lambda>ax. reduce_shape shp ax keep_dims))"
| "get_shape _ = None"
| "const_value (ConstInt k) = Some [k]"
| "const_value (Rank t) = map_option (\<lambda>shp. [int (length shp)]) (get_shape t)"
| "const_value (Range t) =
     (case const_value t of Some [n] \<Rightarrow> Some (range_py n) | _ \<Rightarrow> None)"
| "const_value (Size t) = map_option (\<lambda>v. [int (length v)]) (const_value t)"
| "const_value (Sub a b) =
     (case (const_value a, const_value b) of
        (Some [m], Some [n]) \<Rightarrow> Some [m - n]
      | _ \<Rightarrow> None)"
| "const_value (SplitV t [a, b] axis i) =
     (case (const_value t, const_value a, const_value b) of
        (Some v, Some [m], Some [n]) \<Rightarrow> split_vector v m n axis i
      | _ \<Rightarrow> None)"
| "const_value _ = None"

text \<open>The state with attribute \<open>key\<close> of the node set to \<open>v\<close> (absent for \<open>None\<close>).\<close>

definition with_attr :: "string \<Rightarrow> attr option \<Rightarrow> lowering_state \<Rightarrow> lowering_state" where
  "with_attr key v s = s\<lparr>the_node := (the_node s)\<lparr>attrs := (attrs (the_node s))(key := v)\<rparr>\<rparr>"

section \<open>Pooling\<close>

text \<open>
  The helpers of the base class \<^verbatim>\<open>TensorflowBackendBase\<close> that the rules call are
  parameters of the model: the capability query, the layout pair of a rank, the
  permutation between two layouts, the broadcast of a per-channel tensor and the explicit
  pre-padding step.
\<close>

record backend_base =
  supports_device :: "string \<Rightarrow> bool"
  get_data_format :: "nat \<Rightarrow> bool \<Rightarrow> string \<times> string"
  get_perm_from_formats :: "string \<Rightarrow> string \<Rightarrow> int list"
  explicit_broadcast :: "tensor \<Rightarrow> int \<Rightarrow> nat \<Rightarrow> tensor"
  get_padding_as_op :: "tensor \<Rightarrow> attr \<Rightarrow> tensor"

text \<open>Sequencing of computations that may raise but touch no state.\<close>

definition ebind :: "error + 'a \<Rightarrow> ('a \<Rightarrow> error + 'b) \<Rightarrow> error + 'b" where
  "ebind m f = (case m of Inl e \<Rightarrow> Inl e | Inr v \<Rightarrow> f v)"

fun mapM :: "('a \<Rightarrow> error + 'b) \<Rightarrow> 'a list \<Rightarrow> error + 'b list" where
  "mapM f [] = Inr []"
| "mapM f (x # xs) = ebind (f x) (\<lambda>y. ebind (mapM f xs) (\<lambda>ys. Inr (y # ys)))"

text \<open>
  \<open>v[i]\<close> and \<open>v[i] = n\<close> for an attribute value. The rules compute with the attributes at
  the type the operator schema gives them, a list of integers; any other value raises
  \<open>TypeError\<close> in the model.
\<close>

definition attr_getitem :: "attr \<Rightarrow> int \<Rightarrow> error + int" where
  "attr_getitem v i = (case v of AInts xs \<Rightarrow> getitem xs i | _ \<Rightarrow> Inl TypeError)"

definition attr_setitem :: "attr \<Rightarrow> int \<Rightarrow> int \<Rightarrow> error + attr" where
  "attr_setitem v i n =
     (case v of AInts xs \<Rightarrow> ebind (setitem xs i n) (\<lambda>ys. Inr (AInts ys)) | _ \<Rightarrow> Inl TypeError)"

text \<open>
  \<^verbatim>\<open>int(np.ceil(float(a) / float(b)))\<close>: the float division raises on a zero divisor. The
  quotient is taken exactly (the ceiling of \<open>a / b\<close> is \<open>- ((- a) div b)\<close>).
\<close>

definition ceil_div :: "int \<Rightarrow> int \<Rightarrow> error + int" where
  "ceil_div a b = (if b = 0 then Inl ZeroDivisionError else Inr (- ((- a) div b)))"

definition get_pad_shape :: "attr \<Rightarrow> int list \<Rightarrow> attr \<Rightarrow> attr \<Rightarrow> int list \<Rightarrow> error + int list" where
  "get_pad_shape auto_pad input_spatial_shape kernel_spatial_shape strides_spatial
       output_spatial_shape =
     (if auto_pad = AStr ''SAME_UPPER'' \<or> auto_pad = AStr ''SAME_LOWER'' then
        mapM (\<lambda>i.
          ebind (getitem output_spatial_shape i) (\<lambda>out.
          ebind (attr_getitem strides_spatial i) (\<lambda>stride.
          ebind (attr_getitem kernel_spatial_shape i) (\<lambda>kernel.
          ebind (getitem input_spatial_shape i) (\<lambda>inp.
          Inr ((out - 1) * stride + kernel - inp))))))
          (range_py (int (length input_spatial_shape)))
      else Inr (replicate (length input_spatial_shape) 0))"

definition get_output_shape :: "attr \<Rightarrow> int list \<Rightarrow> attr \<Rightarrow> attr \<Rightarrow> error + int list" where
  "get_output_shape auto_pad input_spatial_shape kernel_spatial_shape strides_spatial =
     (if auto_pad = AStr ''SAME_UPPER'' \<or> auto_pad = AStr ''SAME_LOWER'' then
        mapM (\<lambda>i.
          ebind (getitem input_spatial_shape i) (\<lambda>inp.
          ebind (attr_getitem strides_spatial i) (\<lambda>stride.
          ceil_div inp stride)))
          (range_py (int (length input_spatial_shape)))
      else if auto_pad = AStr ''VALID'' \<or> auto_pad = AStr [] then
        mapM (\<lambda>i.
          ebind (getitem input_spatial_shape i) (\<lambda>inp.
          ebind (attr_getitem kernel_spatial_shape i) (\<lambda>kernel.
          ebind (attr_getitem strides_spatial i) (\<lambda>stride.
          ceil_div (inp - (kernel - 1)) stride))))
          (range_py (int (length input_spatial_shape)))
      else Inr (replicate (length input_spatial_shape) 0))"

text \<open>
  \<^verbatim>\<open>pads = node.attrs.get("pads", [0] * spatial_size * 2)\<close> is the node's own list when
  the attribute is present (\<open>aliased\<close>) and a fresh list otherwise; an assignment
  \<^verbatim>\<open>pads[i] = n\<close> through the alias changes the node.
\<close>

definition pads_setitem :: "bool \<Rightarrow> attr \<Rightarrow> int \<Rightarrow> int \<Rightarrow> attr lowering" where
  "pads_setitem aliased pads i n =
     bind (lift (attr_setitem pads i n)) (\<lambda>pads'.
       if aliased then (\<lambda>s. (Inr pads', with_attr ''pads'' (Some pads') s))
       else return pads')"

fun same_lower_pads :: "bool \<Rightarrow> int \<Rightarrow> int list \<Rightarrow> int list \<Rightarrow> attr \<Rightarrow> attr lowering" where
  "same_lower_pads aliased spatial_size pad_shape [] pads = return pads"
| "same_lower_pads aliased spatial_size pad_shape (i # is) pads =
     bind (lift (getitem pad_shape i)) (\<lambda>p.
     bind (pads_setitem aliased pads (i + spatial_size) (p div 2)) (\<lambda>pads1.
     bind (lift (attr_getitem pads1 (i + spatial_size))) (\<lambda>hi.
     bind (pads_setitem aliased pads1 i (p - hi)) (\<lambda>pads2.
     same_lower_pads aliased spatial_size pad_shape is pads2))))"

text \<open>
  \<^verbatim>\<open>_compatibility_pool\<close>: the portable fallback. It returns a \<^verbatim>\<open>tf.py_func\<close> node that
  runs \<^verbatim>\<open>py_pool\<close> (modelled below as \<open>py_pool\<close>) on the values, declared with element
  type \<^verbatim>\<open>tf.float32\<close> and the shape \<^verbatim>\<open>x_shape[0:2] + out_shape\<close>.
\<close>

definition compatibility_pool :: "string \<Rightarrow> (tensor list) lowering" where
  "compatibility_pool pooling_type =
     bind (input_tensor 0) (\<lambda>x.
     let x_shape = map int (static_shape x);
         spatial_size = int (length (drop 2 x_shape)) in
     bind (attrs_item ''kernel_shape'') (\<lambda>kernel_shape.
     bind (attrs_get ''strides'' (AInts (replicate (nat spatial_size) 1))) (\<lambda>strides_shape.
     bind (attrs_has ''pads'') (\<lambda>aliased.
     bind (attrs_get ''pads'' (AInts (replicate (nat spatial_size * 2) 0))) (\<lambda>pads.
     bind (attrs_get ''auto_pad'' (AStr [])) (\<lambda>auto_pad.
     bind
       (if auto_pad = AStr ''SAME_LOWER'' then
          bind (lift (get_output_shape auto_pad (drop 2 x_shape) kernel_shape strides_shape))
            (\<lambda>out_shape.
          bind (lift (get_pad_shape auto_pad (drop 2 x_shape) kernel_shape strides_shape
                  out_shape)) (\<lambda>pad_shape.
          bind (same_lower_pads aliased spatial_size pad_shape (range_py spatial_size) pads)
            (\<lambda>pads'.
          return (pads', out_shape, pad_shape))))
        else if auto_pad = AStr [] then
          bind (lift (mapM (\<lambda>i.
                  ebind (attr_getitem pads i) (\<lambda>lo.
                  ebind (attr_getitem pads (i + spatial_size)) (\<lambda>hi.
                  Inr (lo + hi))))
                  (range_py spatial_size))) (\<lambda>pad_shape.
          bind (lift (get_output_shape auto_pad (map2 (+) (drop 2 x_shape) pad_shape)
                  kernel_shape strides_shape)) (\<lambda>out_shape.
          return (pads, out_shape, pad_shape)))
        else raise (UnboundLocalError ''out_shape''))
       (\<lambda>(pads', out_shape, pad_shape).
     (case pads' of
        AInts pads_list \<Rightarrow>
          return [SetShape
            (PyFuncPool (Handle x) kernel_shape strides_shape pads_list out_shape pad_shape
               pooling_type Float32)
            (take 2 x_shape @ out_shape)]
      | _ \<Rightarrow> raise TypeError))))))))"

text \<open>\<^verbatim>\<open>_pool\<close>.\<close>

definition pool ::
  "backend_base \<Rightarrow> (tensor \<Rightarrow> attr \<Rightarrow> string \<Rightarrow> attr \<Rightarrow> string \<Rightarrow> tensor) \<Rightarrow> string \<Rightarrow>
     (tensor list) lowering" where
  "pool cls pool_func pooling_type =
     bind (input_tensor 0) (\<lambda>x.
     let x_rank = length (static_shape x);
         support_cuda = supports_device cls ''CUDA'';
         storage_format = fst (get_data_format cls x_rank support_cuda);
         compute_format = snd (get_data_format cls x_rank support_cuda) in
     bind (attrs_item ''kernel_shape'') (\<lambda>kernel_shape.
     bind (attrs_get ''strides'' (AInts (replicate (x_rank - 2) 1))) (\<lambda>strides.
     bind (attrs_has ''auto_pad'') (\<lambda>has_auto_pad.
     bind (if has_auto_pad then
             bind (attrs_item ''auto_pad'') (\<lambda>auto_pad.
               return (if auto_pad = AStr ''SAME_UPPER'' then Some ''SAME''
                       else if auto_pad = AStr ''VALID'' then Some ''VALID''
                       else None))
           else return None) (\<lambda>pad.
     (case pad of
        None \<Rightarrow> compatibility_pool pooling_type
      | Some padding \<Rightarrow>
          if support_cuda then
            return [pool_func (Handle x) kernel_shape padding strides compute_format]
          else
            return [Transpose
              (pool_func
                 (Transpose (Handle x)
                    (get_perm_from_formats cls storage_format compute_format))
                 kernel_shape padding strides compute_format)
              (get_perm_from_formats cls compute_format storage_format)]))))))"

text \<open>\<^verbatim>\<open>partial(tf.nn.pool, pooling_type=...)\<close>.\<close>

definition nn_pool :: "string \<Rightarrow> tensor \<Rightarrow> attr \<Rightarrow> string \<Rightarrow> attr \<Rightarrow> string \<Rightarrow> tensor" where
  "nn_pool pooling_type x window_shape padding strides data_format =
     NNPool x pooling_type window_shape padding strides data_format"

text \<open>
  The window of the global rules:
  \<^verbatim>\<open>dims = tf.range(tf.rank(x)); _, dim_window = tf.split(dims, [2, tf.size(dims) - 2])\<close>.
\<close>

definition dim_window :: "tensor \<Rightarrow> tensor" where
  "dim_window x =
     (let dims = Range (Rank x)
      in SplitV dims [ConstInt 2, Sub (Size dims) (ConstInt 2)] 0 1)"

definition handle_global_average_pool :: "(tensor list) lowering" where
  "handle_global_average_pool =
     bind (input_tensor 0) (\<lambda>x.
     return [ReduceMean (Handle x) (dim_window (Handle x)) True])"


text \<open>
  The loop of \<^verbatim>\<open>handle_average_pool\<close>:
  \<^verbatim>\<open>global_pool = global_pool and (spatial_dim[i] < kernel_shape[i])\<close>; Python's \<^verbatim>\<open>and\<close>
  does not evaluate its right operand once \<^verbatim>\<open>global_pool\<close> is false.
\<close>

fun global_pool_loop :: "int list \<Rightarrow> attr \<Rightarrow> int list \<Rightarrow> bool \<Rightarrow> error + bool" where
  "global_pool_loop spatial_dim kernel_shape [] global_pool = Inr global_pool"
| "global_pool_loop spatial_dim kernel_shape (i # is) global_pool =
     (if global_pool then
        ebind (getitem spatial_dim i) (\<lambda>d.
        ebind (attr_getitem kernel_shape i) (\<lambda>k.
        global_pool_loop spatial_dim kernel_shape is (d < k)))
      else global_pool_loop spatial_dim kernel_shape is False)"

definition handle_average_pool :: "backend_base \<Rightarrow> (tensor list) lowering" where
  "handle_average_pool cls =
     bind (input_tensor 0) (\<lambda>x.
     let spatial_dim = map int (drop 2 (static_shape x)) in
     bind (attrs_get ''kernel_shape'' (AInts [])) (\<lambda>kernel_shape.
     bind (lift (global_pool_loop spatial_dim kernel_shape
             (range_py (int (length spatial_dim))) True)) (\<lambda>global_pool.
     if global_pool then handle_global_average_pool
     else pool cls (nn_pool ''AVG'') ''AVG'')))"

definition handle_max_pool :: "backend_base \<Rightarrow> (tensor list) lowering" where
  "handle_max_pool cls = pool cls (nn_pool ''MAX'') ''MAX''"

subsection \<open>The evaluator of the portable fallback\<close>























section \<open>Slice\<close>

text \<open>
  \<^verbatim>\<open>starts = node.attrs.get("starts")\<close> and \<^verbatim>\<open>ends = node.attrs.get("ends")\<close> bind the
  node's own lists (\<^verbatim>\<open>None\<close> when absent), so \<^verbatim>\<open>ends[i]\<close> reads the node and
  \<^verbatim>\<open>ends[i] = n\<close> writes it.
\<close>

definition alias_getitem :: "string \<Rightarrow> int \<Rightarrow> int lowering" where
  "alias_getitem key i = (\<lambda>s. case attrs (the_node s) key of
       None \<Rightarrow> (Inl TypeError, s)
     | Some v \<Rightarrow> (attr_getitem v i, s))"

definition alias_setitem :: "string \<Rightarrow> int \<Rightarrow> int \<Rightarrow> unit lowering" where
  "alias_setitem key i n = (\<lambda>s. case attrs (the_node s) key of
       None \<Rightarrow> (Inl TypeError, s)
     | Some v \<Rightarrow> (case attr_setitem v i n of
          Inl e \<Rightarrow> (Inl e, s)
        | Inr v' \<Rightarrow> (Inr (), with_attr key (Some v') s)))"

text \<open>\<^verbatim>\<open>len(v)\<close> of an attribute value, \<^verbatim>\<open>None\<close> included.\<close>

definition attr_len :: "attr option \<Rightarrow> error + int" where
  "attr_len v =
     (case v of
        Some (AInts xs) \<Rightarrow> Inr (int (length xs))
      | Some (AFloats xs) \<Rightarrow> Inr (int (length xs))
      | Some (AStrs xs) \<Rightarrow> Inr (int (length xs))
      | Some (AStr xs) \<Rightarrow> Inr (int (length xs))
      | _ \<Rightarrow> Inl TypeError)"

text \<open>The body of the loop of \<^verbatim>\<open>handle_slice\<close>, one equation for the five statements.\<close>

fun slice_loop :: "attr \<Rightarrow> int list \<Rightarrow> int list \<times> int list \<Rightarrow> (int list \<times> int list) lowering" where
  "slice_loop axes [] (full_begin, full_sizes) = return (full_begin, full_sizes)"
| "slice_loop axes (i # is) (full_begin, full_sizes) =
     bind (alias_getitem ''ends'' i) (\<lambda>e0.
     bind (if e0 < 0 then
             bind (lift (attr_getitem axes i)) (\<lambda>a.
             bind (lift (getitem full_sizes a)) (\<lambda>f.
             bind (alias_getitem ''ends'' i) (\<lambda>e. return (f + e))))
           else alias_getitem ''ends'' i) (\<lambda>e1.
     bind (alias_setitem ''ends'' i e1) (\<lambda>_.
     bind (lift (attr_getitem axes i)) (\<lambda>a.
     bind (lift (getitem full_sizes a)) (\<lambda>f.
     bind (alias_getitem ''ends'' i) (\<lambda>e.
     bind (alias_setitem ''ends'' i (min f e)) (\<lambda>_.
     bind (lift (attr_getitem axes i)) (\<lambda>a.
     bind (lift (getitem full_sizes a)) (\<lambda>f.
     bind (alias_getitem ''starts'' i) (\<lambda>b.
     bind (alias_setitem ''starts'' i (min f b)) (\<lambda>_.
     bind (alias_getitem ''starts'' i) (\<lambda>b.
     bind (lift (attr_getitem axes i)) (\<lambda>a.
     bind (lift (setitem full_begin a b)) (\<lambda>full_begin'.
     bind (alias_getitem ''ends'' i) (\<lambda>e.
     bind (alias_getitem ''starts'' i) (\<lambda>b.
     bind (lift (attr_getitem axes i)) (\<lambda>a.
     bind (lift (setitem full_sizes a (e - b))) (\<lambda>full_sizes'.
     slice_loop axes is (full_begin', full_sizes')))))))))))))))))))"

definition handle_slice :: "(tensor list) lowering" where
  "handle_slice =
     bind (input_tensor 0) (\<lambda>x.
     let full_sizes = map int (static_shape x);
         full_begin = replicate (length full_sizes) 0 in
     bind (\<lambda>s. (attr_len (attrs (the_node s) ''starts''), s)) (\<lambda>slice_len.
     bind (attrs_get ''axes'' (AInts (range_py slice_len))) (\<lambda>axes.
     bind (slice_loop axes (range_py slice_len) (full_begin, full_sizes))
       (\<lambda>(full_begin', full_sizes').
     return [Slice (Handle x) full_begin' full_sizes']))))"

section \<open>Batch normalization\<close>

text \<open>Python's truth value of an attribute, and \<^verbatim>\<open>1 - v\<close>.\<close>

fun truthy :: "attr \<Rightarrow> bool" where
  "truthy (AInt n) = (n \<noteq> 0)"
| "truthy (AFloat r) = (r \<noteq> 0)"
| "truthy (AStr xs) = (xs \<noteq> [])"
| "truthy (AInts xs) = (xs \<noteq> [])"
| "truthy (AFloats xs) = (xs \<noteq> [])"
| "truthy (AStrs xs) = (xs \<noteq> [])"

fun one_minus :: "attr \<Rightarrow> error + attr" where
  "one_minus (AInt n) = Inr (AInt (1 - n))"
| "one_minus (AFloat r) = Inr (AFloat (1 - r))"
| "one_minus _ = Inl TypeError"

definition handle_batch_normalization :: "backend_base \<Rightarrow> (tensor list) lowering" where
  "handle_batch_normalization cls =
     bind (input_tensor 0) (\<lambda>x.
     let total_num_dim = length (static_shape x) in
     bind (input_tensor 1) (\<lambda>in1.
     let scale = explicit_broadcast cls (Handle in1) 1 total_num_dim in
     bind (input_tensor 2) (\<lambda>in2.
     let bias = explicit_broadcast cls (Handle in2) 1 total_num_dim in
     bind (input_tensor 3) (\<lambda>in3.
     let running_mean = explicit_broadcast cls (Handle in3) 1 total_num_dim in
     bind (input_tensor 4) (\<lambda>in4.
     let running_variance = explicit_broadcast cls (Handle in4) 1 total_num_dim in
     bind (attrs_get ''epsilon'' (AFloat (1 / 100000))) (\<lambda>variance_epsilon.
     bind (attrs_get ''is_test'' (AInt 0)) (\<lambda>is_test.
     if truthy is_test then
       return [BatchNormalization (Handle x) running_mean running_variance bias scale
                 variance_epsilon]
     else
     bind (attrs_get ''spatial'' (AInt 1)) (\<lambda>spatial_attr.
     let spatial = eq_one spatial_attr in
     bind (attrs_get ''momentum'' (AFloat (9 / 10))) (\<lambda>momentum.
     let axis = (if spatial then [0] else 0 # map int [2..<total_num_dim]);
         mean = explicit_broadcast cls (Moments_mean (Handle x) axis) 1 total_num_dim;
         variance = explicit_broadcast cls (Moments_variance (Handle x) axis) 1 total_num_dim in
     bind (lift (one_minus momentum)) (\<lambda>rest.
     let running_mean' = Add (Mul_scalar running_mean momentum) (Mul_scalar mean rest) in
     bind (lift (one_minus momentum)) (\<lambda>rest'.
     let running_variance' =
           Add (Mul_scalar running_variance momentum) (Mul_scalar variance rest') in
     return [BatchNormalization (Handle x) running_mean' running_variance' bias scale
               variance_epsilon])))))))))))"

section \<open>Convolution\<close>

text \<open>
  \<^verbatim>\<open>tf.split(value, num_or_size_splits, axis)\<close> returns a Python list of the outputs of one
  split node: \<open>g\<close> equal parts for an integer \<open>g\<close>, one part for each size of a list.
\<close>

definition tf_split :: "tensor \<Rightarrow> attr \<Rightarrow> int \<Rightarrow> error + tensor list" where
  "tf_split v num_or_size_splits axis =
     (case num_or_size_splits of
        AInt g \<Rightarrow> Inr (map (Split v num_or_size_splits axis) [0..<nat g])
      | AInts sizes \<Rightarrow> Inr (map (Split v num_or_size_splits axis) [0..<length sizes])
      | _ \<Rightarrow> Inl TypeError)"

text \<open>\<^verbatim>\<open>in_weights.get_shape().as_list()[2:] == kernel_shape\<close>.\<close>

definition shape_eq_attr :: "nat list \<Rightarrow> attr \<Rightarrow> bool" where
  "shape_eq_attr shp v = (case v of AInts ks \<Rightarrow> map int shp = ks | _ \<Rightarrow> False)"

text \<open>\<^verbatim>\<open>node.attrs.get(key, None)\<close>.\<close>

definition attrs_get_none :: "string \<Rightarrow> (attr option) lowering" where
  "attrs_get_none key = (\<lambda>s. (Inr (attrs (the_node s) key), s))"

definition inputs_len :: "int lowering" where
  "inputs_len = (\<lambda>s. (Inr (int (length (inputs (the_node s)))), s))"

text \<open>\<^verbatim>\<open>_conv\<close>; \<open>transposed\<close> is the parameter \<^verbatim>\<open>transpose\<close>.\<close>

definition conv :: "backend_base \<Rightarrow> bool \<Rightarrow> (tensor list) lowering" where
  "conv cls transposed =
     bind (input_tensor 0) (\<lambda>x0.
     let x_rank = length (static_shape x0);
         support_cuda = supports_device cls ''CUDA'';
         storage_format = fst (get_data_format cls x_rank support_cuda);
         compute_format = snd (get_data_format cls x_rank support_cuda) in
     bind (input_tensor 1) (\<lambda>in_weights.
     let weights_rank = length (static_shape in_weights);
         perm = (if transposed then map int [2..<weights_rank] @ [0, 1]
                 else map int [2..<weights_rank] @ [1, 0]) in
     bind (attrs_has ''kernel_shape'') (\<lambda>has_kernel_shape.
     bind (if has_kernel_shape then
             bind (attrs_item ''kernel_shape'') (\<lambda>kernel_shape.
               if shape_eq_attr (drop 2 (static_shape in_weights)) kernel_shape
               then return () else raise AssertionError)
           else return ()) (\<lambda>_.
     let weights = Transpose (Handle in_weights) perm in
     bind (attrs_get_none ''dilations'') (\<lambda>dilations.
     bind (attrs_get_none ''strides'') (\<lambda>strides.
     bind (attrs_has ''pads'') (\<lambda>has_pads.
     bind (if has_pads then
             bind (attrs_item ''pads'') (\<lambda>pads. return (get_padding_as_op cls (Handle x0) pads))
           else return (Handle x0)) (\<lambda>x.
     bind (attrs_has ''group'') (\<lambda>has_group.
     if has_group then
       bind (attrs_item ''group'') (\<lambda>group.
       bind (lift (tf_split weights group (-1))) (\<lambda>weight_groups.
       bind (if support_cuda then lift (tf_split x group 1)
             else lift (tf_split
                    (Transpose x (get_perm_from_formats cls storage_format compute_format))
                    group (-1))) (\<lambda>xs.
       let convolved =
             map (\<lambda>(x, weight). Convolution x weight ''VALID'' strides dilations compute_format)
               (zip xs weight_groups) in
       bind inputs_len (\<lambda>n.
       if n = 2 then
         (if support_cuda then return [Concat convolved 1]
          else return [Transpose (Concat convolved (-1))
                         (get_perm_from_formats cls compute_format storage_format)])
       else
         bind (input_tensor 2) (\<lambda>bias.
         if support_cuda then
           return [BiasAdd (Concat convolved 1) (Handle bias) compute_format]
         else
           return [Transpose (BiasAdd (Concat convolved (-1)) (Handle bias) compute_format)
                     (get_perm_from_formats cls compute_format storage_format)])))))
     else
       let x1 = (if \<not> support_cuda
                 then Transpose x (get_perm_from_formats cls storage_format compute_format)
                 else x);
           convolved0 = Convolution x1 weights ''VALID'' strides dilations compute_format;
           convolved = (if \<not> support_cuda
                 then Transpose convolved0
                        (get_perm_from_formats cls compute_format storage_format)
                 else convolved0) in
       bind inputs_len (\<lambda>n.
       if n = 2 then return [convolved]
       else
         bind (input_tensor 2) (\<lambda>bias.
         let convolved1 = (if \<not> support_cuda
                 then Transpose convolved
                        (get_perm_from_formats cls storage_format compute_format)
                 else convolved);
             output0 = BiasAdd convolved1 (Handle bias) compute_format;
             output = (if \<not> support_cuda
                 then Transpose output0
                        (get_perm_from_formats cls compute_format storage_format)
                 else output0) in
         return [output])))))))))))"

definition handle_conv :: "backend_base \<Rightarrow> (tensor list) lowering" where
  "handle_conv cls = conv cls False"

definition handle_conv_transpose :: "backend_base \<Rightarrow> (tensor list) lowering" where
  "handle_conv_transpose cls = conv cls True"

section \<open>Softmax\<close>




subsection \<open>The values of the softmax graph\<close>






















section \<open>Reference inputs\<close>

text \<open>
  Modelled from the spec: the base class \<^verbatim>\<open>TensorflowBackendBase\<close> is not among the
  sources; this instance follows the layout resolver of the specification (section 4.1).
  Storage is channel-first; the compute layout equals it when acceleration is available
  and is channel-last otherwise; the permutation between two layouts lists, for each axis
  of the target layout, its position in the source layout. The two remaining helpers are
  kept as opaque graph nodes.
\<close>

definition resolve_formats :: "nat \<Rightarrow> bool \<Rightarrow> string \<times> string" where
  "resolve_formats rank accel =
     (let spatial = drop (5 - rank) ''DHW''
      in (''NC'' @ spatial, if accel then ''NC'' @ spatial else ''N'' @ spatial @ ''C''))"

fun index_of :: "'a \<Rightarrow> 'a list \<Rightarrow> int" where
  "index_of c [] = -1"
| "index_of c (d # ds) =
     (if c = d then 0 else let k = index_of c ds in if k < 0 then -1 else k + 1)"

definition perm_from_formats :: "string \<Rightarrow> string \<Rightarrow> int list" where
  "perm_from_formats src dst = map (\<lambda>c. index_of c src) dst"

definition reference_base :: "bool \<Rightarrow> backend_base" where
  "reference_base accel =
     \<lparr>supports_device = (\<lambda>device. accel),
      get_data_format = resolve_formats,
      get_perm_from_formats = perm_from_formats,
      explicit_broadcast = ExplicitBroadcast,
      get_padding_as_op = PaddingAsOp\<rparr>"

text \<open>A state with one node named \<open>nm\<close>, its attributes given as a list, and a symbol table.\<close>

definition state_of ::
  "string \<Rightarrow> (string \<times> attr) list \<Rightarrow> string list \<Rightarrow> (string \<times> handle) list \<Rightarrow> lowering_state" where
  "state_of nm as ins tab =
     \<lparr>the_node = \<lparr>op_type = [], attrs = map_of as, inputs = ins, outputs = [''y''], name = nm\<rparr>,
      input_dict = map_of tab,
      warnings = []\<rparr>"

definition float_handle :: "nat \<Rightarrow> nat list \<Rightarrow> handle" where
  "float_handle r shp = \<lparr>href = r, static_shape = shp, elem_type = Float32\<rparr>"

text \<open>The slice node of the specification's scenario, on a vector of length 4.\<close>

definition slice_state :: lowering_state where
  "slice_state =
     state_of ''slice_1''
       [(''starts'', AInts [5]), (''ends'', AInts [-1]), (''axes'', AInts [0])]
       [''x''] [(''x'', float_handle 0 [4])]"

text \<open>An arg-max node over axis 1 of a 2 x 3 tensor, and pooling nodes on one input.\<close>

definition arg_state :: lowering_state where
  "arg_state = state_of ''argmax_1'' [(''axis'', AInt 1)] [''x''] [(''x'', float_handle 0 [2, 3])]"

definition pool_state :: "(string \<times> attr) list \<Rightarrow> nat list \<Rightarrow> lowering_state" where
  "pool_state as shp = state_of ''pool_1'' as [''x''] [(''x'', float_handle 0 shp)]"

text \<open>
  A batch-normalization node in training mode with momentum \<open>1/2\<close>, and a convolution node
  with two groups and a bias.
\<close>

definition bn_state :: lowering_state where
  "bn_state =
     state_of ''bn_1'' [(''momentum'', AFloat (1 / 2))]
       [''x'', ''scale'', ''b'', ''mean'', ''var'']
       [(''x'', float_handle 0 [2, 3, 4, 4]), (''scale'', float_handle 1 [3]),
        (''b'', float_handle 2 [3]), (''mean'', float_handle 3 [3]),
        (''var'', float_handle 4 [3])]"

definition conv_state :: lowering_state where
  "conv_state =
     state_of ''conv_1'' [(''group'', AInt 2), (''kernel_shape'', AInts [3, 3])]
       [''x'', ''w'', ''b'']
       [(''x'', float_handle 0 [1, 4, 5, 5]), (''w'', float_handle 1 [6, 2, 3, 3]),
        (''b'', float_handle 2 [6])]"




section \<open>Properties\<close>

lemmas lowering_defs =
  bind_def return_def raise_def lift_def attrs_item_def attrs_get_def attrs_has_def
  input_tensor_def warn_def ebind_def alias_getitem_def norm_index_def alias_setitem_def attr_getitem_def
  attr_setitem_def getitem_def norm_index_def setitem_def with_attr_def attr_len_def range_py_def
  attrs_get_none_def inputs_len_def

lemmas reference_defs =
  state_of_def float_handle_def reference_base_def resolve_formats_def perm_from_formats_def

lemma slice_shape_whole:
  "slice_shape rest (replicate (length rest) 0) (map int rest) = Some rest"
  by (induction rest) auto

subsection \<open>Slice\<close>

text \<open>
  C1, as the code has it. For a slice node with \<open>starts = [5]\<close>, \<open>ends = [-1]\<close>,
  \<open>axes = [0]\<close> on a tensor whose axis 0 has length 4, the negative end is taken relative
  to the axis length, so the effective end is \<open>4 + (-1) = 3\<close> (already within the bound);
  the effective start is clamped to 4. The rule passes begin 4 and size \<open>3 - 4 = -1\<close> for
  axis 0 to the slice primitive, whose \<open>-1\<close> means "all remaining elements": none remain
  from position 4, so the returned tensor has size 0 on axis 0.
\<close>

theorem slice_clamp_negative_end:
  assumes "getitem (inputs (the_node s)) 0 = Inr k"
    and "input_dict s k = Some x"
    and "static_shape x = 4 # rest"
    and "attrs (the_node s) ''starts'' = Some (AInts [5])"
    and "attrs (the_node s) ''ends'' = Some (AInts [-1])"
    and "attrs (the_node s) ''axes'' = Some (AInts [0])"
  shows "handle_slice s =
     (Inr [Slice (Handle x) (4 # replicate (length rest) 0) (-1 # map int rest)],
      with_attr ''starts'' (Some (AInts [4])) (with_attr ''ends'' (Some (AInts [3])) s))
    \<and> get_shape (Slice (Handle x) (4 # replicate (length rest) 0) (-1 # map int rest))
        = Some (0 # rest)"
  using assms
  by (simp add: handle_slice_def lowering_defs slice_shape_whole Let_def)

theorem slice_clamp_negative_end_witness:
  "getitem (inputs (the_node slice_state)) 0 = Inr ''x''
   \<and> input_dict slice_state ''x'' = Some (float_handle 0 [4])
   \<and> fst (handle_slice slice_state) = Inr [Slice (Handle (float_handle 0 [4])) [4] [-1]]
   \<and> get_shape (Slice (Handle (float_handle 0 [4])) [4] [-1]) = Some [0]"
proof -
  have h1: "getitem (inputs (the_node slice_state)) 0 = Inr ''x''"
    by (simp add: slice_state_def state_of_def getitem_def norm_index_def)
  have h2: "input_dict slice_state ''x'' = Some (float_handle 0 [4])"
    by (simp add: slice_state_def state_of_def)
  have h3: "static_shape (float_handle 0 [4]) = 4 # []"
    by (simp add: float_handle_def)
  have h4: "attrs (the_node slice_state) ''starts'' = Some (AInts [5])"
    by (simp add: slice_state_def state_of_def)
  have h5: "attrs (the_node slice_state) ''ends'' = Some (AInts [-1])"
    by (simp add: slice_state_def state_of_def)
  have h6: "attrs (the_node slice_state) ''axes'' = Some (AInts [0])"
    by (simp add: slice_state_def state_of_def)
  show ?thesis
    using h1 h2 slice_clamp_negative_end [OF h1 h2 h3 h4 h5 h6] by simp
qed

text \<open>
  The claim as the specification words it (the effective end clamps to 4) fails on the
  scenario itself: after the call the end held for axis 0 is 3, and the size handed to the
  slice primitive is \<open>-1\<close>, not \<open>4 - 4 = 0\<close>.
\<close>

theorem slice_effective_end_counterexample:
  "attrs (the_node (snd (handle_slice slice_state))) ''ends'' = Some (AInts [3])
   \<and> attrs (the_node (snd (handle_slice slice_state))) ''ends'' \<noteq> Some (AInts [4])
   \<and> fst (handle_slice slice_state) = Inr [Slice (Handle (float_handle 0 [4])) [4] [-1]]
   \<and> fst (handle_slice slice_state) \<noteq> Inr [Slice (Handle (float_handle 0 [4])) [4] [0]]"
  by (simp add: handle_slice_def slice_state_def reference_defs lowering_defs Let_def)

text \<open>
  C3 fails on the same scenario: \<^verbatim>\<open>handle_slice\<close> writes the effective values into the lists
  it got from \<^verbatim>\<open>node.attrs\<close>, so after the call the node's \<open>starts\<close> is \<open>[4]\<close> instead of
  \<open>[5]\<close> and its \<open>ends\<close> is \<open>[3]\<close> instead of \<open>[-1]\<close>.
\<close>

theorem handle_slice_mutates_node:
  "attrs (the_node slice_state) ''starts'' = Some (AInts [5])
   \<and> attrs (the_node slice_state) ''ends'' = Some (AInts [-1])
   \<and> attrs (the_node (snd (handle_slice slice_state))) ''starts'' = Some (AInts [4])
   \<and> attrs (the_node (snd (handle_slice slice_state))) ''ends'' = Some (AInts [3])
   \<and> the_node (snd (handle_slice slice_state)) \<noteq> the_node slice_state"
proof -
  have a: "attrs (the_node slice_state) ''starts'' = Some (AInts [5])"
    by (simp add: slice_state_def state_of_def)
  have b: "attrs (the_node (snd (handle_slice slice_state))) ''starts'' = Some (AInts [4])"
    by (simp add: handle_slice_def slice_state_def reference_defs lowering_defs Let_def)
  have c: "attrs (the_node slice_state) ''ends'' = Some (AInts [-1])"
    by (simp add: slice_state_def state_of_def)
  have d: "attrs (the_node (snd (handle_slice slice_state))) ''ends'' = Some (AInts [3])"
    by (simp add: handle_slice_def slice_state_def reference_defs lowering_defs Let_def)
  from a b have "the_node (snd (handle_slice slice_state)) \<noteq> the_node slice_state"
    by auto
  with a b c d show ?thesis by simp
qed

subsection \<open>ArgMax and ArgMin\<close>

text \<open>
  C10. Whatever the \<open>keepdims\<close> attribute is (absent, 0, 1 or any other integer), the rules
  return the arg-max (arg-min) primitive over the given axis and nothing else; the static
  shape of that tensor has one dimension less than the input. The attribute only decides
  the warning, emitted exactly when \<open>keepdims\<close> is absent or 1. Nothing else of the state
  changes.
\<close>

theorem arg_max_min_keepdims:
  assumes "getitem (inputs (the_node s)) 0 = Inr k"
    and "input_dict s k = Some data"
    and "attrs (the_node s) ''axis'' = Some (AInt a)"
    and "- int (length (static_shape data)) \<le> a"
    and "a < int (length (static_shape data))"
  shows "let s' = with_attr ''keepdims'' (map_option AInt kd) s in
    handle_arg_max s' =
      (Inr [ArgMax (Handle data) (AInt a)],
       s'\<lparr>warnings := warnings s' @
          (if kd = None \<or> kd = Some 1
           then [''Definition of ArgMax with keepdims enabled is incompatible between onnx and tensorflow.'']
           else [])\<rparr>)
    \<and> handle_arg_min s' =
      (Inr [ArgMin (Handle data) (AInt a)],
       s'\<lparr>warnings := warnings s' @
          (if kd = None \<or> kd = Some 1
           then [''Definition of ArgMin with keepdims enabled is incompatible between onnx and tensorflow.'']
           else [])\<rparr>)
    \<and> map_option length (get_shape (ArgMax (Handle data) (AInt a)))
        = Some (length (static_shape data) - 1)
    \<and> map_option length (get_shape (ArgMin (Handle data) (AInt a)))
        = Some (length (static_shape data) - 1)"
  using assms
  by (cases kd)
     (auto simp: Let_def handle_arg_max_def handle_arg_min_def bind_def input_tensor_def
        attrs_item_def attrs_get_def with_attr_def warn_def return_def drop_axis_def)

theorem arg_max_min_keepdims_witness:
  "getitem (inputs (the_node arg_state)) 0 = Inr ''x''
   \<and> input_dict arg_state ''x'' = Some (float_handle 0 [2, 3])
   \<and> fst (handle_arg_max (with_attr ''keepdims'' (Some (AInt 0)) arg_state))
       = Inr [ArgMax (Handle (float_handle 0 [2, 3])) (AInt 1)]
   \<and> warnings (snd (handle_arg_max (with_attr ''keepdims'' (Some (AInt 0)) arg_state))) = []
   \<and> fst (handle_arg_min (with_attr ''keepdims'' (Some (AInt 0)) arg_state))
       = Inr [ArgMin (Handle (float_handle 0 [2, 3])) (AInt 1)]
   \<and> get_shape (ArgMax (Handle (float_handle 0 [2, 3])) (AInt 1)) = Some [2]"
proof -
  have h1: "getitem (inputs (the_node arg_state)) 0 = Inr ''x''"
    by (simp add: arg_state_def state_of_def getitem_def norm_index_def)
  have h2: "input_dict arg_state ''x'' = Some (float_handle 0 [2, 3])"
    by (simp add: arg_state_def state_of_def)
  have h3: "attrs (the_node arg_state) ''axis'' = Some (AInt 1)"
    by (simp add: arg_state_def state_of_def)
  have h4: "- int (length (static_shape (float_handle 0 [2, 3]))) \<le> 1"
    by (simp add: float_handle_def)
  have h5: "1 < int (length (static_shape (float_handle 0 [2, 3])))"
    by (simp add: float_handle_def)
  have w: "warnings (with_attr ''keepdims'' (Some (AInt 0)) arg_state) = []"
    by (simp add: with_attr_def arg_state_def state_of_def)
  have g: "get_shape (ArgMax (Handle (float_handle 0 [2, 3])) (AInt 1)) = Some [2]"
    by (simp add: float_handle_def drop_axis_def)
  show ?thesis
    using h1 h2 g w arg_max_min_keepdims [OF h1 h2 h3 h4 h5, of "Some 0"]
    by (simp add: Let_def)
qed

subsection \<open>Routing of the pooling rules\<close>

text \<open>
  C4. For a pooling node whose input is in the symbol table and that has a
  \<open>kernel_shape\<close>, \<^verbatim>\<open>_pool\<close> hands \<open>auto_pad = SAME_UPPER\<close> and \<open>auto_pad = VALID\<close> to the native
  pooling primitive with the native padding modes \<open>SAME\<close> and \<open>VALID\<close> (between the two
  layout transposes when acceleration is not available), and every other case, among them
  \<open>SAME_LOWER\<close> and a node with no \<open>auto_pad\<close> at all, to \<^verbatim>\<open>_compatibility_pool\<close>.
\<close>

theorem pool_routing:
  assumes "getitem (inputs (the_node s)) 0 = Inr k"
    and "input_dict s k = Some x"
    and "attrs (the_node s) ''kernel_shape'' = Some kernel_shape"
  shows "pool cls pool_func pooling_type s =
    (let auto_pad = attrs (the_node s) ''auto_pad'';
         strides = (case attrs (the_node s) ''strides'' of
                      None \<Rightarrow> AInts (replicate (length (static_shape x) - 2) 1) | Some v \<Rightarrow> v);
         support_cuda = supports_device cls ''CUDA'';
         storage_format = fst (get_data_format cls (length (static_shape x)) support_cuda);
         compute_format = snd (get_data_format cls (length (static_shape x)) support_cuda);
         native = (\<lambda>padding.
           if support_cuda then pool_func (Handle x) kernel_shape padding strides compute_format
           else Transpose
             (pool_func
                (Transpose (Handle x) (get_perm_from_formats cls storage_format compute_format))
                kernel_shape padding strides compute_format)
             (get_perm_from_formats cls compute_format storage_format))
     in if auto_pad = Some (AStr ''SAME_UPPER'') then (Inr [native ''SAME''], s)
        else if auto_pad = Some (AStr ''VALID'') then (Inr [native ''VALID''], s)
        else compatibility_pool pooling_type s)"
  using assms
  by (auto simp: pool_def Let_def bind_def return_def attrs_item_def attrs_get_def
        attrs_has_def input_tensor_def split: option.splits)

theorem pool_routing_witness:
  "getitem (inputs (the_node (pool_state
       [(''kernel_shape'', AInts [2, 2]), (''auto_pad'', AStr ''SAME_UPPER'')] [1, 3, 4, 4]))) 0
     = Inr ''x''
   \<and> fst (pool (reference_base False) (nn_pool ''MAX'') ''MAX''
        (pool_state [(''kernel_shape'', AInts [2, 2]), (''auto_pad'', AStr ''SAME_UPPER'')]
           [1, 3, 4, 4]))
     = Inr [Transpose
              (NNPool (Transpose (Handle (float_handle 0 [1, 3, 4, 4])) [0, 2, 3, 1])
                 ''MAX'' (AInts [2, 2]) ''SAME'' (AInts [1, 1]) ''NHWC'')
              [0, 3, 1, 2]]
   \<and> pool (reference_base False) (nn_pool ''MAX'') ''MAX''
        (pool_state [(''kernel_shape'', AInts [2, 2]), (''auto_pad'', AStr ''SAME_LOWER'')]
           [1, 3, 5, 5])
     = compatibility_pool ''MAX''
        (pool_state [(''kernel_shape'', AInts [2, 2]), (''auto_pad'', AStr ''SAME_LOWER'')]
           [1, 3, 5, 5])"
proof -
  let ?u = "pool_state [(''kernel_shape'', AInts [2, 2]), (''auto_pad'', AStr ''SAME_UPPER'')]
              [1, 3, 4, 4]"
  let ?l = "pool_state [(''kernel_shape'', AInts [2, 2]), (''auto_pad'', AStr ''SAME_LOWER'')]
              [1, 3, 5, 5]"
  have u1: "getitem (inputs (the_node ?u)) 0 = Inr ''x''"
    by (simp add: pool_state_def state_of_def getitem_def norm_index_def)
  have u2: "input_dict ?u ''x'' = Some (float_handle 0 [1, 3, 4, 4])"
    by (simp add: pool_state_def state_of_def)
  have u3: "attrs (the_node ?u) ''kernel_shape'' = Some (AInts [2, 2])"
    by (simp add: pool_state_def state_of_def)
  have l1: "getitem (inputs (the_node ?l)) 0 = Inr ''x''"
    by (simp add: pool_state_def state_of_def getitem_def norm_index_def)
  have l2: "input_dict ?l ''x'' = Some (float_handle 0 [1, 3, 5, 5])"
    by (simp add: pool_state_def state_of_def)
  have l3: "attrs (the_node ?l) ''kernel_shape'' = Some (AInts [2, 2])"
    by (simp add: pool_state_def state_of_def)
  have ua: "attrs (the_node ?u) ''auto_pad'' = Some (AStr ''SAME_UPPER'')"
    and us: "attrs (the_node ?u) ''strides'' = None"
    by (simp_all add: pool_state_def state_of_def)
  have la: "attrs (the_node ?l) ''auto_pad'' = Some (AStr ''SAME_LOWER'')"
    by (simp add: pool_state_def state_of_def)
  have a: "fst (pool (reference_base False) (nn_pool ''MAX'') ''MAX'' ?u)
     = Inr [Transpose
              (NNPool (Transpose (Handle (float_handle 0 [1, 3, 4, 4])) [0, 2, 3, 1])
                 ''MAX'' (AInts [2, 2]) ''SAME'' (AInts [1, 1]) ''NHWC'')
              [0, 3, 1, 2]]"
    using pool_routing [OF u1 u2 u3, of "reference_base False" "nn_pool ''MAX''" "''MAX''"]
    by (simp add: Let_def pool_state_def state_of_def reference_base_def resolve_formats_def
          perm_from_formats_def nn_pool_def float_handle_def)
  have b: "pool (reference_base False) (nn_pool ''MAX'') ''MAX'' ?l = compatibility_pool ''MAX'' ?l"
    using pool_routing [OF l1 l2 l3, of "reference_base False" "nn_pool ''MAX''" "''MAX''"]
    by (simp add: Let_def pool_state_def state_of_def)
  from u1 a b show ?thesis by simp
qed

subsection \<open>Missing attributes\<close>

text \<open>
  C8, as the code has it. An arg-max or arg-min node with no \<open>axis\<close>, and a pooling node
  that reaches \<^verbatim>\<open>_pool\<close> with no \<open>kernel_shape\<close>, fail: the subscript \<^verbatim>\<open>node.attrs[key]\<close>
  raises a key error, no tensor is returned, no warning is emitted and the state is left as
  it was. The error carries the name of the missing attribute and nothing else; the node
  name is not part of it.
\<close>

theorem missing_attribute_key_error:
  assumes "getitem (inputs (the_node s)) 0 = Inr k"
    and "input_dict s k = Some x"
  shows "handle_arg_max (with_attr ''axis'' None s)
      = (Inl (KeyError ''axis''), with_attr ''axis'' None s)
    \<and> handle_arg_min (with_attr ''axis'' None s)
      = (Inl (KeyError ''axis''), with_attr ''axis'' None s)
    \<and> pool cls pool_func pooling_type (with_attr ''kernel_shape'' None s)
      = (Inl (KeyError ''kernel_shape''), with_attr ''kernel_shape'' None s)
    \<and> handle_max_pool cls (with_attr ''kernel_shape'' None s)
      = (Inl (KeyError ''kernel_shape''), with_attr ''kernel_shape'' None s)"
  using assms
  by (simp add: handle_arg_max_def handle_arg_min_def pool_def handle_max_pool_def Let_def
        bind_def return_def attrs_item_def attrs_get_def attrs_has_def input_tensor_def
        with_attr_def)

theorem missing_attribute_key_error_witness:
  "getitem (inputs (the_node arg_state)) 0 = Inr ''x''
   \<and> input_dict arg_state ''x'' = Some (float_handle 0 [2, 3])
   \<and> fst (handle_arg_max (with_attr ''axis'' None arg_state)) = Inl (KeyError ''axis'')
   \<and> fst (handle_max_pool (reference_base False) (with_attr ''kernel_shape'' None arg_state))
       = Inl (KeyError ''kernel_shape'')"
proof -
  have h1: "getitem (inputs (the_node arg_state)) 0 = Inr ''x''"
    by (simp add: arg_state_def state_of_def getitem_def norm_index_def)
  have h2: "input_dict arg_state ''x'' = Some (float_handle 0 [2, 3])"
    by (simp add: arg_state_def state_of_def)
  show ?thesis
    using h1 h2
      missing_attribute_key_error [OF h1 h2, of "reference_base False" "nn_pool ''MAX''" "''MAX''"]
    by simp
qed

text \<open>
  The claim as worded fails: two arg-max nodes that differ in their name only, both without
  \<open>axis\<close>, raise the very same error, so the error cannot carry the node name. And an
  average-pool node with no \<open>kernel_shape\<close> raises an index error, which carries neither
  name.
\<close>

theorem missing_attribute_node_name_counterexample:
  "name (the_node (state_of ''node_a'' [] [''x''] [(''x'', float_handle 0 [2, 3])]))
     \<noteq> name (the_node (state_of ''node_b'' [] [''x''] [(''x'', float_handle 0 [2, 3])]))
   \<and> fst (handle_arg_max (state_of ''node_a'' [] [''x''] [(''x'', float_handle 0 [2, 3])]))
       = Inl (KeyError ''axis'')
   \<and> fst (handle_arg_max (state_of ''node_b'' [] [''x''] [(''x'', float_handle 0 [2, 3])]))
       = Inl (KeyError ''axis'')
   \<and> fst (handle_average_pool (reference_base False) (pool_state [] [1, 3, 4, 4]))
       = Inl IndexError"
  by (simp add: handle_arg_max_def handle_average_pool_def pool_state_def reference_defs
        lowering_defs Let_def)

subsection \<open>Batch normalization in training mode\<close>

text \<open>
  C9. With \<open>is_test\<close> not set, the rule blends the batch moments into the running
  statistics with the \<open>momentum\<close> attribute (default \<open>0.9\<close>):
  \<open>running * momentum + batch * (1 - momentum)\<close>. It returns exactly one tensor, the
  normalization of the input with the blended statistics; the blended statistics are no
  output of their own, and the state after the call (node, symbol table, warnings) is the
  state before it.
\<close>

theorem batch_normalization_training_frame:
  assumes "inputs (the_node s) = k0 # k1 # k2 # k3 # k4 # others"
    and "input_dict s k0 = Some x"
    and "input_dict s k1 = Some h1"
    and "input_dict s k2 = Some h2"
    and "input_dict s k3 = Some h3"
    and "input_dict s k4 = Some h4"
    and "attrs (the_node s) ''is_test'' = None \<or> attrs (the_node s) ''is_test'' = Some (AInt 0)"
    and "attrs (the_node s) ''momentum'' = map_option AFloat mom"
  shows "handle_batch_normalization cls s =
    (let n = length (static_shape x);
         m = (case mom of None \<Rightarrow> 9 / 10 | Some v \<Rightarrow> v);
         axis = (if eq_one (case attrs (the_node s) ''spatial'' of None \<Rightarrow> AInt 1 | Some v \<Rightarrow> v)
                 then [0] else 0 # map int [2..<n]);
         scale = explicit_broadcast cls (Handle h1) 1 n;
         bias = explicit_broadcast cls (Handle h2) 1 n;
         running_mean = explicit_broadcast cls (Handle h3) 1 n;
         running_variance = explicit_broadcast cls (Handle h4) 1 n;
         mean = explicit_broadcast cls (Moments_mean (Handle x) axis) 1 n;
         variance = explicit_broadcast cls (Moments_variance (Handle x) axis) 1 n;
         epsilon = (case attrs (the_node s) ''epsilon'' of
                      None \<Rightarrow> AFloat (1 / 100000) | Some v \<Rightarrow> v)
     in (Inr [BatchNormalization (Handle x)
                (Add (Mul_scalar running_mean (AFloat m)) (Mul_scalar mean (AFloat (1 - m))))
                (Add (Mul_scalar running_variance (AFloat m))
                   (Mul_scalar variance (AFloat (1 - m))))
                bias scale epsilon],
         s))"
  using assms
  by (cases mom)
     (auto simp: handle_batch_normalization_def Let_def bind_def return_def lift_def
        input_tensor_def attrs_get_def getitem_def norm_index_def split: option.splits)

theorem batch_normalization_training_frame_witness:
  "inputs (the_node bn_state) = [''x'', ''scale'', ''b'', ''mean'', ''var'']
   \<and> attrs (the_node bn_state) ''is_test'' = None
   \<and> handle_batch_normalization (reference_base False) bn_state =
      (Inr [BatchNormalization (Handle (float_handle 0 [2, 3, 4, 4]))
              (Add (Mul_scalar (ExplicitBroadcast (Handle (float_handle 3 [3])) 1 4) (AFloat (1 / 2)))
                 (Mul_scalar
                    (ExplicitBroadcast (Moments_mean (Handle (float_handle 0 [2, 3, 4, 4])) [0]) 1 4)
                    (AFloat (1 / 2))))
              (Add (Mul_scalar (ExplicitBroadcast (Handle (float_handle 4 [3])) 1 4) (AFloat (1 / 2)))
                 (Mul_scalar
                    (ExplicitBroadcast (Moments_variance (Handle (float_handle 0 [2, 3, 4, 4])) [0]) 1 4)
                    (AFloat (1 / 2))))
              (ExplicitBroadcast (Handle (float_handle 2 [3])) 1 4)
              (ExplicitBroadcast (Handle (float_handle 1 [3])) 1 4)
              (AFloat (1 / 100000))],
       bn_state)"
proof -
  have i: "inputs (the_node bn_state) = ''x'' # ''scale'' # ''b'' # ''mean'' # ''var'' # []"
    by (simp add: bn_state_def state_of_def)
  have d0: "input_dict bn_state ''x'' = Some (float_handle 0 [2, 3, 4, 4])"
    and d1: "input_dict bn_state ''scale'' = Some (float_handle 1 [3])"
    and d2: "input_dict bn_state ''b'' = Some (float_handle 2 [3])"
    and d3: "input_dict bn_state ''mean'' = Some (float_handle 3 [3])"
    and d4: "input_dict bn_state ''var'' = Some (float_handle 4 [3])"
    by (simp_all add: bn_state_def state_of_def)
  have t: "attrs (the_node bn_state) ''is_test'' = None"
    by (simp add: bn_state_def state_of_def)
  then have t': "attrs (the_node bn_state) ''is_test'' = None
      \<or> attrs (the_node bn_state) ''is_test'' = Some (AInt 0)"
    by simp
  have m: "attrs (the_node bn_state) ''momentum'' = map_option AFloat (Some (1 / 2))"
    by (simp add: bn_state_def state_of_def)
  have sp: "attrs (the_node bn_state) ''spatial'' = None"
    and ep: "attrs (the_node bn_state) ''epsilon'' = None"
    by (simp_all add: bn_state_def state_of_def)
  show ?thesis
    using i t
      batch_normalization_training_frame [OF i d0 d1 d2 d3 d4 t' m, of "reference_base False"]
    by (simp add: Let_def sp ep reference_base_def float_handle_def)
qed

subsection \<open>Grouped convolution\<close>

text \<open>
  C6. For a convolution node with \<open>group = g\<close>, the rule splits the (pre-padded, and
  without acceleration transposed) input into \<open>g\<close> equal parts along the channel axis of
  the compute layout and the re-ordered weights into \<open>g\<close> equal parts along their last
  (output-channel) axis, convolves the \<open>i\<close>-th input part with the \<open>i\<close>-th weight part for
  \<open>i = 0, ..., g - 1\<close>, and concatenates these \<open>g\<close> convolutions in that order along the
  channel axis. The bias, when the node has a third input, is added once, to the
  concatenation; no part is biased on its own.
\<close>

theorem grouped_convolution_structure:
  assumes "inputs (the_node s) = k0 # k1 # rest"
    and "input_dict s k0 = Some x0"
    and "input_dict s k1 = Some w"
    and "rest = [] \<or> input_dict s (hd rest) = Some b"
    and "attrs (the_node s) ''group'' = Some (AInt g)"
    and "case attrs (the_node s) ''kernel_shape'' of
           None \<Rightarrow> True | Some v \<Rightarrow> shape_eq_attr (drop 2 (static_shape w)) v"
  shows "conv cls transposed s =
    (let support_cuda = supports_device cls ''CUDA'';
         storage_format = fst (get_data_format cls (length (static_shape x0)) support_cuda);
         compute_format = snd (get_data_format cls (length (static_shape x0)) support_cuda);
         weights = Transpose (Handle w)
           (map int [2..<length (static_shape w)] @ (if transposed then [0, 1] else [1, 0]));
         padded = (case attrs (the_node s) ''pads'' of
                     None \<Rightarrow> Handle x0 | Some pads \<Rightarrow> get_padding_as_op cls (Handle x0) pads);
         x = (if support_cuda then padded
              else Transpose padded (get_perm_from_formats cls storage_format compute_format));
         channel_axis = (if support_cuda then 1 else -1);
         convolved = map (\<lambda>i.
             Convolution (Split x (AInt g) channel_axis i) (Split weights (AInt g) (-1) i)
               ''VALID'' (attrs (the_node s) ''strides'') (attrs (the_node s) ''dilations'')
               compute_format) [0..<nat g];
         joined = Concat convolved channel_axis;
         biased = (if rest = [] then joined else BiasAdd joined (Handle b) compute_format);
         output = (if support_cuda then biased
                   else Transpose biased (get_perm_from_formats cls compute_format storage_format))
     in (Inr [output], s))"
proof -
  have z: "zip (map f [0..<n]) (map h [0..<n]) = map (\<lambda>i. (f i, h i)) [0..<n]"
    for f h :: "nat \<Rightarrow> tensor" and n
    by (simp add: zip_map_map zip_same_conv_map)
  have r: "rest \<noteq> [] \<Longrightarrow> getitem (k0 # k1 # rest) 2 = Inr (hd rest)"
    by (cases rest) (auto simp: getitem_def norm_index_def)
  show ?thesis
    using assms r
    by (cases rest)
       (auto simp: conv_def Let_def bind_def return_def raise_def lift_def input_tensor_def
          attrs_get_none_def attrs_item_def attrs_has_def inputs_len_def tf_split_def z
          getitem_def norm_index_def comp_def
          split: option.splits)
qed

theorem grouped_convolution_structure_witness:
  "inputs (the_node conv_state) = [''x'', ''w'', ''b'']
   \<and> attrs (the_node conv_state) ''group'' = Some (AInt 2)
   \<and> handle_conv (reference_base True) conv_state =
      (Inr [BiasAdd
              (Concat
                 [Convolution
                    (Split (Handle (float_handle 0 [1, 4, 5, 5])) (AInt 2) 1 0)
                    (Split (Transpose (Handle (float_handle 1 [6, 2, 3, 3])) [2, 3, 1, 0])
                       (AInt 2) (-1) 0)
                    ''VALID'' None None ''NCHW'',
                  Convolution
                    (Split (Handle (float_handle 0 [1, 4, 5, 5])) (AInt 2) 1 1)
                    (Split (Transpose (Handle (float_handle 1 [6, 2, 3, 3])) [2, 3, 1, 0])
                       (AInt 2) (-1) 1)
                    ''VALID'' None None ''NCHW'']
                 1)
              (Handle (float_handle 2 [6])) ''NCHW''],
       conv_state)"
proof -
  have i: "inputs (the_node conv_state) = ''x'' # ''w'' # [''b'']"
    by (simp add: conv_state_def state_of_def)
  have d0: "input_dict conv_state ''x'' = Some (float_handle 0 [1, 4, 5, 5])"
    and d1: "input_dict conv_state ''w'' = Some (float_handle 1 [6, 2, 3, 3])"
    and d2: "[''b''] = [] \<or> input_dict conv_state (hd [''b'']) = Some (float_handle 2 [6])"
    by (simp_all add: conv_state_def state_of_def)
  have g: "attrs (the_node conv_state) ''group'' = Some (AInt 2)"
    by (simp add: conv_state_def state_of_def)
  have k: "case attrs (the_node conv_state) ''kernel_shape'' of None \<Rightarrow> True
           | Some v \<Rightarrow> shape_eq_attr (drop 2 (static_shape (float_handle 1 [6, 2, 3, 3]))) v"
    by (simp add: conv_state_def state_of_def shape_eq_attr_def float_handle_def)
  have a: "attrs (the_node conv_state) ''pads'' = None"
    "attrs (the_node conv_state) ''strides'' = None"
    "attrs (the_node conv_state) ''dilations'' = None"
    by (simp_all add: conv_state_def state_of_def)
  show ?thesis
    using i g grouped_convolution_structure [OF i d0 d1 d2 g k, of "reference_base True" False]
    by (simp add: Let_def a handle_conv_def reference_base_def float_handle_def
          resolve_formats_def upt_rec)
qed

subsection \<open>The global-pool special case\<close>









subsection \<open>Softmax\<close>




















subsection \<open>The portable pooling fallback\<close>

lemma mapM_all_Inr:
  assumes "\<And>x. x \<in> set xs \<Longrightarrow> f x = Inr (g x)"
  shows "mapM f xs = Inr (map g xs)"
  using assms by (induction xs) (simp_all add: ebind_def)

lemma mapM_range:
  assumes "\<And>i. i < n \<Longrightarrow> f (int i) = Inr (g i)"
  shows "mapM f (range_py (int n)) = Inr (map g [0..<n])"
proof -
  have "mapM f (map int [0..<n]) = Inr (map (\<lambda>z. g (nat z)) (map int [0..<n]))"
    by (rule mapM_all_Inr) (auto simp: assms)
  then show ?thesis
    by (simp add: range_py_def comp_def)
qed

lemma getitem_nat:
  assumes "i < length xs"
  shows "getitem xs (int i) = Inr (xs ! i)"
  using assms by (simp add: getitem_def norm_index_def)












lemma ebind_Inr: "ebind (Inr v) f = f v"
  by (simp add: ebind_def)





text \<open>
  With explicit pads (no \<^verbatim>\<open>auto_pad\<close>) and positive strides, \<^verbatim>\<open>_compatibility_pool\<close> hands
  the evaluator the sum of the two pads of each axis as \<open>pad_shape\<close> and the number of
  window positions of each axis as \<open>out_shape\<close>, and leaves the state alone.
\<close>

lemma ceil_div_positions:
  assumes "0 < s"
  shows "ceil_div (a + 1) s = Inr (a div s + 1)"
proof -
  have "- (a + 1) = s * (- (a div s) - 1) + (s - 1 - a mod s)"
  proof -
    have "s * (a div s) + a mod s = a" by simp
    then show ?thesis by (simp add: algebra_simps)
  qed
  moreover have "0 \<le> s - 1 - a mod s"
    using pos_mod_bound [OF assms, of a] by linarith
  moreover have "s - 1 - a mod s < s"
    using pos_mod_sign [OF assms, of a] by linarith
  ultimately have "(- (a + 1)) div s = - (a div s) - 1"
    by (rule int_div_pos_eq)
  then show ?thesis
    using assms by (simp add: ceil_div_def)
qed

lemma compatibility_pool_explicit_pads:
  assumes "getitem (inputs (the_node s)) 0 = Inr key"
    and "input_dict s key = Some h"
    and "static_shape h = N # C # dims"
    and "attrs (the_node s) ''kernel_shape'' = Some (AInts ks)"
    and "length ks = length dims"
    and "attrs (the_node s) ''strides'' = Some (AInts ss)"
    and "length ss = length dims"
    and "attrs (the_node s) ''pads'' = Some (AInts pads)"
    and "length pads = 2 * length dims"
    and "attrs (the_node s) ''auto_pad'' = None"
    and "\<forall>i < length dims. 0 < ss ! i"
    and "pad_shape = map (\<lambda>i. pads ! i + pads ! (i + length dims)) [0..<length dims]"
    and "out_shape = map (\<lambda>i. (int (dims ! i) + pad_shape ! i - ks ! i) div ss ! i + 1) [0..<length dims]"
  shows "compatibility_pool pooling_type s =
    (Inr [SetShape
            (PyFuncPool (Handle h) (AInts ks) (AInts ss) pads out_shape pad_shape
               pooling_type Float32)
            (int N # int C # out_shape)], s)"
proof -
  define sp where "sp = length dims"
  have pad: "mapM (\<lambda>i.
        ebind (attr_getitem (AInts pads) i) (\<lambda>lo.
        ebind (attr_getitem (AInts pads) (i + int sp)) (\<lambda>hi.
        Inr (lo + hi)))) (range_py (int sp)) = Inr pad_shape"
    unfolding assms(12) sp_def [symmetric]
  proof (rule mapM_range)
    fix i assume i: "i < sp"
    have "int i + int sp = int (i + sp)" by simp
    moreover have "i + sp < length pads" "i < length pads"
      using i assms(9) by (simp_all add: sp_def)
    ultimately show "ebind (attr_getitem (AInts pads) (int i)) (\<lambda>lo.
        ebind (attr_getitem (AInts pads) (int i + int sp)) (\<lambda>hi.
        Inr (lo + hi))) = Inr (pads ! i + pads ! (i + sp))"
      by (simp only: attr_getitem_def attr.case getitem_nat ebind_Inr)
  qed
  have lp: "length pad_shape = sp"
    by (simp add: assms(12) sp_def)
  have lsum: "length (map2 (+) (map int dims) pad_shape) = sp"
    by (simp add: lp sp_def)
  have out: "get_output_shape (AStr []) (map2 (+) (map int dims) pad_shape) (AInts ks) (AInts ss)
      = Inr out_shape"
  proof -
    have "mapM (\<lambda>i.
          ebind (getitem (map2 (+) (map int dims) pad_shape) i) (\<lambda>inp.
          ebind (attr_getitem (AInts ks) i) (\<lambda>kernel.
          ebind (attr_getitem (AInts ss) i) (\<lambda>stride.
          ceil_div (inp - (kernel - 1)) stride))))
          (range_py (int sp)) = Inr out_shape"
      unfolding assms(13) sp_def [symmetric]
    proof (rule mapM_range)
      fix i assume i: "i < sp"
      have a: "i < length (map2 (+) (map int dims) pad_shape)" "i < length ks" "i < length ss"
        using i lsum assms(5,7) by (simp_all add: sp_def)
      have b: "map2 (+) (map int dims) pad_shape ! i = int (dims ! i) + pad_shape ! i"
        using i lp by (simp add: sp_def)
      have c: "0 < ss ! i"
        using i assms(11) by (simp add: sp_def)
      have d: "int (dims ! i) + pad_shape ! i - (ks ! i - 1)
          = (int (dims ! i) + pad_shape ! i - ks ! i) + 1"
        by simp
      show "ebind (getitem (map2 (+) (map int dims) pad_shape) (int i)) (\<lambda>inp.
          ebind (attr_getitem (AInts ks) (int i)) (\<lambda>kernel.
          ebind (attr_getitem (AInts ss) (int i)) (\<lambda>stride.
          ceil_div (inp - (kernel - 1)) stride)))
        = Inr ((int (dims ! i) + pad_shape ! i - ks ! i) div ss ! i + 1)"
        by (simp only: attr_getitem_def attr.case getitem_nat [OF a(1)] getitem_nat [OF a(2)]
            getitem_nat [OF a(3)] ebind_Inr b d ceil_div_positions [OF c])
    qed
    then show ?thesis
      by (simp add: get_output_shape_def lp sp_def)
  qed
  show ?thesis
    unfolding compatibility_pool_def Let_def
    by (simp add: bind_def input_tensor_def attrs_item_def attrs_get_def attrs_has_def
        return_def lift_def assms(1,2,3,4,6,8,10) pad [unfolded sp_def] out)
qed



end
